theory Spec2Isabelle
  imports Main
begin

section \<open>Data model\<close>

text \<open>
  The subscription service of \<^verbatim>\<open>src/features/Subscription/subscription.service.js\<close>
  works on three Sequelize models (User, Plan, SubscriptionOrder) and on the Mercado Pago
  preapproval API. Rows are records, tables are maps from the primary key to the row, and
  a JavaScript \<^verbatim>\<open>Date\<close> is its time value: the number of milliseconds since the epoch,
  an \<open>int\<close>. A nullable column is an \<open>option\<close>. Primary keys are strings; the key of a
  row is the key of the map, so the records carry no \<^verbatim>\<open>id\<close> field.
\<close>

record user =
  email :: string
  planId :: "string option"
  planExpiresAt :: "int option"
  transcriptionsUsedCount :: int
  transcriptionMinutesUsed :: int
  agentUsesUsed :: int
  assistantUsesUsed :: int

record plan =
  planName :: string
  price :: string
  durationInDays :: int

text \<open>
  The record the gateway returns for a preapproval (a recurring subscription):
  \<^verbatim>\<open>id\<close>, \<^verbatim>\<open>init_point\<close>, \<^verbatim>\<open>status\<close> and \<^verbatim>\<open>external_reference\<close> are the fields
  the service reads.
\<close>

record preapproval =
  preapprovalIdent :: string
  init_point :: string
  providerStatus :: string
  external_reference :: "string option"

record subscriptionOrder =
  userId :: string
  orderPlanId :: string
  totalAmount :: string
  status :: string
  mercadopagoPreferenceId :: "string option"
  mercadopagoPaymentId :: "string option"
  mercadopagoPaymentDetails :: "preapproval option"

text \<open>
  An order instance as \<^verbatim>\<open>findByPk(id, {include: [user, plan]})\<close> returns it: the row
  together with the joined user and plan (each \<open>None\<close> when the join finds no row, and
  when the query has no \<^verbatim>\<open>include\<close>).
\<close>

record orderInstance =
  orderRow :: subscriptionOrder
  orderUser :: "user option"
  orderPlan :: "plan option"

text \<open>
  A thrown JavaScript error: its \<^verbatim>\<open>message\<close>, and \<^verbatim>\<open>response.data.message\<close> when the
  error carries an HTTP response (the gateway client's errors do).
\<close>

datatype exn = Exn (message: string) (responseMessage: "string option")

text \<open>The request body of the subscription a checkout submits to the gateway.\<close>

record subscriptionPayload =
  reason :: string
  payloadExternalReference :: string
  payer_email :: string
  transaction_amount :: string
  payloadStatus :: string

datatype consoleLine =
  ConsoleLog string
  | ConsoleError string "exn option"

text \<open>
  The webhook body \<^verbatim>\<open>{ type, data: { id } }\<close>. \<open>ntype\<close> is \<open>None\<close> when the body has no
  string \<^verbatim>\<open>type\<close>; \<open>ndata\<close> is \<open>None\<close> when the body has no \<^verbatim>\<open>data\<close> object, and
  \<open>Some i\<close> when \<^verbatim>\<open>data.id\<close> is the string \<open>i\<close>. The argument of the service is a
  \<open>notification option\<close>: \<open>None\<close> is a \<^verbatim>\<open>null\<close> or \<^verbatim>\<open>undefined\<close> body.
\<close>

record notification =
  ntype :: "string option"
  ndata :: "string option"

text \<open>
  Everything the service reads or writes outside its arguments:
  \<^item> the three tables;
  \<^item> the gateway: \<^verbatim>\<open>mercadopago.isConfigured\<close>, and what \<^verbatim>\<open>preapproval.get\<close> and
    \<^verbatim>\<open>preapproval.create\<close> answer (a thrown error is \<open>Inl\<close>); \<open>gatewayCalls\<close> counts the
    calls made;
  \<^item> the clock: \<open>clock\<close> is what \<^verbatim>\<open>new Date()\<close> reads (one reading per service call),
    and \<open>addDays t n\<close> is the time value of a date \<open>t\<close> after
    \<^verbatim>\<open>d.setDate(d.getDate() + n)\<close>, which is calendar arithmetic in the server's time zone
    (\<open>t + n * 86400000\<close> where no clock change intervenes);
  \<^item> \<open>faults\<close>: a script of store failures. Every store operation consumes the head of
    the list and throws when it is \<open>True\<close>; with the empty list no operation fails;
  \<^item> \<open>console\<close>: the lines written with \<^verbatim>\<open>console.log\<close> and \<^verbatim>\<open>console.error\<close>.
\<close>

record world =
  users :: "string \<rightharpoonup> user"
  plans :: "string \<rightharpoonup> plan"
  orders :: "string \<rightharpoonup> subscriptionOrder"
  isConfigured :: bool
  preapprovalGet :: "string \<Rightarrow> exn + preapproval"
  preapprovalCreate :: "subscriptionPayload \<Rightarrow> exn + preapproval"
  gatewayCalls :: nat
  clock :: int
  addDays :: "int \<Rightarrow> int \<Rightarrow> int"
  faults :: "bool list"
  console :: "consoleLine list"

section \<open>Effects: state, exceptions, try and catch\<close>

text \<open>
  An \<^verbatim>\<open>async\<close> function is a function from the world to a result and the new world;
  the result is \<open>Inl e\<close> when the promise rejects with \<open>e\<close>.
\<close>

type_synonym 'a io = "world \<Rightarrow> (exn + 'a) \<times> world"

definition succeed :: "'a \<Rightarrow> 'a io" where
  "succeed x w = (Inr x, w)"

definition raise :: "exn \<Rightarrow> 'a io" where
  "raise e w = (Inl e, w)"

definition andThen :: "'a io \<Rightarrow> ('a \<Rightarrow> 'b io) \<Rightarrow> 'b io" where
  "andThen m k w = (case m w of (Inl e, w') \<Rightarrow> (Inl e, w') | (Inr x, w') \<Rightarrow> k x w')"

text \<open>
  \<open>tryWith m h k\<close>: run \<open>m\<close> inside a \<^verbatim>\<open>try\<close>; on an exception run the handler \<open>h\<close>,
  otherwise go on with \<open>k\<close>. \<open>tryCatch m h\<close> is \<^verbatim>\<open>try { return m } catch (e) { h e }\<close>.
\<close>

definition tryWith :: "'a io \<Rightarrow> (exn \<Rightarrow> 'b io) \<Rightarrow> ('a \<Rightarrow> 'b io) \<Rightarrow> 'b io" where
  "tryWith m h k w = (case m w of (Inl e, w') \<Rightarrow> h e w' | (Inr x, w') \<Rightarrow> k x w')"

definition tryCatch :: "'a io \<Rightarrow> (exn \<Rightarrow> 'a io) \<Rightarrow> 'a io" where
  "tryCatch m h = tryWith m h succeed"

definition consoleLog :: "string \<Rightarrow> unit io" where
  "consoleLog s w = (Inr (), w\<lparr>console := console w @ [ConsoleLog s]\<rparr>)"

definition consoleError :: "string \<Rightarrow> exn option \<Rightarrow> unit io" where
  "consoleError s e w = (Inr (), w\<lparr>console := console w @ [ConsoleError s e]\<rparr>)"

text \<open>JavaScript truthiness of a nullable string: \<^verbatim>\<open>null\<close> and \<^verbatim>\<open>''\<close> are falsy.\<close>

definition truthy :: "string option \<Rightarrow> bool" where
  "truthy v = (case v of None \<Rightarrow> False | Some s \<Rightarrow> s \<noteq> [])"

subsection \<open>The store\<close>

definition storeError :: exn where
  "storeError = Exn ''SequelizeDatabaseError'' None"

definition typeError :: exn where
  "typeError = Exn ''TypeError'' None"

definition storeOp :: "(world \<Rightarrow> 'a \<times> world) \<Rightarrow> 'a io" where
  "storeOp f w =
     (case faults w of
        [] \<Rightarrow> (case f w of (x, w') \<Rightarrow> (Inr x, w'))
      | b # bs \<Rightarrow>
          if b then (Inl storeError, w\<lparr>faults := bs\<rparr>)
          else (case f (w\<lparr>faults := bs\<rparr>) of (x, w') \<Rightarrow> (Inr x, w')))"

definition findUser :: "string \<Rightarrow> user option io" where
  "findUser uid = storeOp (\<lambda>w. (users w uid, w))"

definition findPlan :: "string \<Rightarrow> plan option io" where
  "findPlan pid = storeOp (\<lambda>w. (plans w pid, w))"

definition includeUserPlan :: "world \<Rightarrow> subscriptionOrder \<Rightarrow> orderInstance" where
  "includeUserPlan w so =
     \<lparr>orderRow = so, orderUser = users w (userId so), orderPlan = plans w (orderPlanId so)\<rparr>"

definition findOrderIncluding :: "string \<Rightarrow> orderInstance option io" where
  "findOrderIncluding oid = storeOp (\<lambda>w. (map_option (includeUserPlan w) (orders w oid), w))"

definition findOrder :: "string \<Rightarrow> orderInstance option io" where
  "findOrder oid =
     storeOp (\<lambda>w. (map_option (\<lambda>so. \<lparr>orderRow = so, orderUser = None, orderPlan = None\<rparr>)
                      (orders w oid), w))"

text \<open>
  \<^verbatim>\<open>instance.update(values)\<close> writes the given columns of the row with the instance's
  key; a key with no row is left without one.
\<close>

definition updateOrder :: "string \<Rightarrow> (subscriptionOrder \<Rightarrow> subscriptionOrder) \<Rightarrow> unit io" where
  "updateOrder oid f =
     storeOp (\<lambda>w. ((), w\<lparr>orders := (orders w)(oid := map_option f (orders w oid))\<rparr>))"

definition updateUser :: "string \<Rightarrow> (user \<Rightarrow> user) \<Rightarrow> unit io" where
  "updateUser uid f =
     storeOp (\<lambda>w. ((), w\<lparr>users := (users w)(uid := map_option f (users w uid))\<rparr>))"

definition createOrder :: "string \<Rightarrow> subscriptionOrder \<Rightarrow> unit io" where
  "createOrder oid so = storeOp (\<lambda>w. ((), w\<lparr>orders := (orders w)(oid \<mapsto> so)\<rparr>))"

subsection \<open>The gateway\<close>

definition preapprovalGetCall :: "string \<Rightarrow> preapproval io" where
  "preapprovalGetCall pid w = (preapprovalGet w pid, w\<lparr>gatewayCalls := Suc (gatewayCalls w)\<rparr>)"

definition preapprovalCreateCall :: "subscriptionPayload \<Rightarrow> preapproval io" where
  "preapprovalCreateCall p w =
     (preapprovalCreate w p, w\<lparr>gatewayCalls := Suc (gatewayCalls w)\<rparr>)"

section \<open>The entitlement rule\<close>

text \<open>
  Lines 153 to 159 of the webhook, and again lines 226 to 230 of the status check:
  start from now, or from the user's expiration date when it is set and later than now,
  and add the plan's duration in days.
\<close>

definition newExpirationDate :: "world \<Rightarrow> user \<Rightarrow> plan \<Rightarrow> int" where
  "newExpirationDate w u p =
     (let now = clock w;
          start = (case planExpiresAt u of
                     None \<Rightarrow> now
                   | Some e \<Rightarrow> if e > now then e else now)
      in addDays w start (durationInDays p))"

section \<open>processWebhook\<close>

text \<open>Lines 133 to 139: the order status a provider status maps to.\<close>

definition webhookNewStatus :: "string \<Rightarrow> string" where
  "webhookNewStatus s =
     (if s = ''authorized'' then ''approved''
      else if s = ''cancelled'' \<or> s = ''paused'' then ''cancelled''
      else ''pending'')"

text \<open>Lines 148 to 180: what the webhook does to the user after the order is updated.\<close>

definition webhookEntitlement :: "string \<Rightarrow> orderInstance \<Rightarrow> unit io" where
  "webhookEntitlement newStatus subscriptionOrder =
     (let user = orderUser subscriptionOrder; plan = orderPlan subscriptionOrder in
      if newStatus = ''approved'' \<and> user \<noteq> None \<and> plan \<noteq> None then
        (\<lambda>w. andThen
           (updateUser (userId (orderRow subscriptionOrder))
              (\<lambda>r. r\<lparr>planId := Some (orderPlanId (orderRow subscriptionOrder)),
                     planExpiresAt := Some (newExpirationDate w (the user) (the plan)),
                     transcriptionsUsedCount := 0,
                     transcriptionMinutesUsed := 0,
                     agentUsesUsed := 0,
                     assistantUsesUsed := 0\<rparr>))
           (\<lambda>_. consoleLog ''plan activated or renewed'') w)
      else if newStatus = ''cancelled'' \<and> user \<noteq> None then
        (\<lambda>w. andThen
           (updateUser (userId (orderRow subscriptionOrder))
              (\<lambda>r. r\<lparr>planId := None, planExpiresAt := Some (clock w)\<rparr>))
           (\<lambda>_. consoleLog ''subscription cancelled, plan removed'') w)
      else consoleLog ''subscription status updated'')"

text \<open>The body of the \<^verbatim>\<open>try\<close> block, lines 109 to 181.\<close>

definition processWebhookTry :: "notification option \<Rightarrow> unit io" where
  "processWebhookTry body =
     (case body of
        None \<Rightarrow> raise typeError
      | Some n \<Rightarrow>
          if ntype n = Some ''preapproval'' then
            (case ndata n of
               None \<Rightarrow> raise typeError
             | Some preapprovalId \<Rightarrow>
                 andThen (preapprovalGetCall preapprovalId) (\<lambda>preapprovalBody.
                   if \<not> truthy (external_reference preapprovalBody) then
                     consoleLog ''webhook without external_reference, ignored''
                   else
                     (let subscriptionOrderId = the (external_reference preapprovalBody) in
                      andThen (findOrderIncluding subscriptionOrderId) (\<lambda>found.
                        case found of
                          None \<Rightarrow> consoleLog ''subscription order not found, webhook ignored''
                        | Some subscriptionOrder \<Rightarrow>
                            (let newStatus = webhookNewStatus (providerStatus preapprovalBody) in
                             andThen
                               (updateOrder subscriptionOrderId
                                  (\<lambda>r. r\<lparr>status := newStatus,
                                         mercadopagoPaymentId := Some preapprovalId,
                                         mercadopagoPaymentDetails := Some preapprovalBody\<rparr>))
                               (\<lambda>_. webhookEntitlement newStatus subscriptionOrder))))))
          else succeed ())"

text \<open>
  The whole function: the \<^verbatim>\<open>catch\<close> of lines 182 to 184 logs the error and returns.
\<close>

definition processWebhook :: "notification option \<Rightarrow> unit io" where
  "processWebhook body =
     tryCatch (processWebhookTry body)
       (\<lambda>error. consoleError ''error processing subscription webhook'' (Some error))"

section \<open>checkSubscriptionOrderStatus\<close>

text \<open>
  Lines 212 to 214: the status starts as the order's own and is replaced when the provider
  status is one of the three the service knows.
\<close>

definition pollerNewStatus :: "string \<Rightarrow> string \<Rightarrow> string" where
  "pollerNewStatus current s =
     (let statusAtualizado = (if s = ''authorized'' then ''approved'' else current)
      in if s = ''cancelled'' \<or> s = ''paused'' then ''cancelled'' else statusAtualizado)"

text \<open>
  The inner \<^verbatim>\<open>catch\<close> of lines 240 to 242 logs the error; control then reaches
  line 244, which returns the instance the function holds. \<^verbatim>\<open>instance.update\<close> sets the
  new values on the instance in memory before it saves them, so that instance carries
  every change attempted up to the failure.
\<close>

definition mpCatch :: "orderInstance \<Rightarrow> exn \<Rightarrow> orderInstance option io" where
  "mpCatch held mpError =
     andThen (consoleError ''error checking status at Mercado Pago'' (Some mpError))
       (\<lambda>_. succeed (Some held))"

text \<open>The inner \<^verbatim>\<open>try\<close> block, lines 208 to 239, with its handler and line 244.\<close>

definition checkWithProvider ::
  "string \<Rightarrow> string \<Rightarrow> orderInstance \<Rightarrow> orderInstance option io" where
  "checkWithProvider subscriptionOrderId preferenceId subscriptionOrder =
     tryWith (preapprovalGetCall preferenceId) (mpCatch subscriptionOrder) (\<lambda>preapprovalData.
       let statusAtualizado =
             pollerNewStatus (status (orderRow subscriptionOrder)) (providerStatus preapprovalData)
       in
       if statusAtualizado \<noteq> status (orderRow subscriptionOrder) then
         (let changes = (\<lambda>r. r\<lparr>status := statusAtualizado,
                                  mercadopagoPaymentDetails := Some preapprovalData\<rparr>);
              updated = subscriptionOrder\<lparr>orderRow := changes (orderRow subscriptionOrder)\<rparr>
          in
          tryWith (updateOrder subscriptionOrderId changes) (mpCatch updated) (\<lambda>_.
            if statusAtualizado = ''approved'' \<and> orderUser updated \<noteq> None
               \<and> orderPlan updated \<noteq> None
            then
              (\<lambda>w.
                 let grant = (\<lambda>r. r\<lparr>planId := Some (orderPlanId (orderRow updated)),
                                       planExpiresAt :=
                                         Some (newExpirationDate w (the (orderUser updated))
                                                 (the (orderPlan updated)))\<rparr>);
                     granted = updated\<lparr>orderUser := map_option grant (orderUser updated)\<rparr>
                 in
                 tryWith (updateUser (userId (orderRow updated)) grant) (mpCatch granted)
                   (\<lambda>_. andThen (consoleLog ''plan activated or extended by status check'')
                      (\<lambda>_. tryCatch (findOrder subscriptionOrderId) (mpCatch granted))) w)
            else tryCatch (findOrder subscriptionOrderId) (mpCatch updated)))
       else succeed (Some subscriptionOrder))"

definition checkSubscriptionOrderStatus :: "string \<Rightarrow> orderInstance option io" where
  "checkSubscriptionOrderStatus subscriptionOrderId =
     tryCatch
       (andThen (findOrderIncluding subscriptionOrderId) (\<lambda>found.
          case found of
            None \<Rightarrow> raise (Exn ''Pedido de assinatura nao encontrado.'' None)
          | Some subscriptionOrder \<Rightarrow>
              if status (orderRow subscriptionOrder) = ''approved'' then
                succeed (Some subscriptionOrder)
              else if truthy (mercadopagoPreferenceId (orderRow subscriptionOrder)) then
                checkWithProvider subscriptionOrderId
                  (the (mercadopagoPreferenceId (orderRow subscriptionOrder))) subscriptionOrder
              else succeed (Some subscriptionOrder)))
       (\<lambda>error. andThen (consoleError ''error checking subscription order status'' (Some error))
                  (\<lambda>_. raise error))"

section \<open>createCheckoutForPlan\<close>

record checkout =
  checkoutUrl :: string
  preapprovalId :: string

definition serviceUnavailableMessage :: string where
  "serviceUnavailableMessage = ''O servico de pagamento nao esta disponivel no momento. Por favor, contate o suporte.''"

definition gatewayErrorMessage :: string where
  "gatewayErrorMessage = ''Erro ao comunicar com o servico de pagamento.''"

text \<open>
  Line 98: \<^verbatim>\<open>error.response?.data?.message || 'Erro ao comunicar ...'\<close>. The provider's
  message is kept when the error carries a non-empty one.
\<close>

definition rethrownMessage :: "exn \<Rightarrow> string" where
  "rethrownMessage error =
     (if truthy (responseMessage error) then the (responseMessage error)
      else gatewayErrorMessage)"

text \<open>
  The \<^verbatim>\<open>try\<close> block, lines 43 to 94. \<open>newOrderId\<close> is the primary key the store gives
  the created order. The payload's amount is the plan's price (the source converts the
  decimal text with \<^verbatim>\<open>parseFloat\<close>); its two dates and two URLs, which no
  branch depends on, are left out.
\<close>

definition createCheckoutTry :: "string \<Rightarrow> string \<Rightarrow> string \<Rightarrow> checkout io" where
  "createCheckoutTry newOrderId uid pid =
     andThen (findUser uid) (\<lambda>user.
     andThen (findPlan pid) (\<lambda>plan.
       if user = None then raise (Exn ''Usuario nao encontrado.'' None)
       else if plan = None then raise (Exn ''Plano nao encontrado.'' None)
       else
         andThen
           (createOrder newOrderId
              \<lparr>userId = uid, orderPlanId = pid, totalAmount = price (the plan),
               status = ''pending'', mercadopagoPreferenceId = None,
               mercadopagoPaymentId = None, mercadopagoPaymentDetails = None\<rparr>) (\<lambda>_.
         let payload =
               \<lparr>reason = ''Assinatura Mensal - Plano '' @ planName (the plan),
                payloadExternalReference = newOrderId,
                payer_email = email (the user),
                transaction_amount = price (the plan),
                payloadStatus = ''pending''\<rparr>
         in
         andThen (consoleLog ''[MercadoPago] sending the preapproval'') (\<lambda>_.
         andThen (preapprovalCreateCall payload) (\<lambda>responseBody.
         andThen
           (updateOrder newOrderId
              (\<lambda>r. r\<lparr>mercadopagoPreferenceId := Some (preapprovalIdent responseBody)\<rparr>)) (\<lambda>_.
         succeed \<lparr>checkoutUrl = init_point responseBody,
                  preapprovalId = preapprovalIdent responseBody\<rparr>))))))"

definition createCheckoutForPlan :: "string \<Rightarrow> string \<Rightarrow> string \<Rightarrow> checkout io" where
  "createCheckoutForPlan newOrderId uid pid =
     (\<lambda>w.
        if \<not> isConfigured w then
          andThen (consoleError ''[Checkout] Mercado Pago SDK is not configured'' None)
            (\<lambda>_. raise (Exn serviceUnavailableMessage None)) w
        else
          tryCatch (createCheckoutTry newOrderId uid pid)
            (\<lambda>error. andThen (consoleError ''error creating subscription checkout'' (Some error))
                       (\<lambda>_. raise (Exn (rethrownMessage error) None))) w)"

section \<open>getUserActivePlan\<close>

record activePlan =
  activePlanPlan :: plan
  expiresAt :: int
  remainingDays :: int

text \<open>\<^verbatim>\<open>User.findByPk(userId, {include: currentPlan})\<close>: the user and the plan it points to.\<close>

definition findUserIncludingPlan :: "string \<Rightarrow> (user \<times> plan option) option io" where
  "findUserIncludingPlan uid =
     storeOp (\<lambda>w.
       (map_option
          (\<lambda>u. (u, case planId u of None \<Rightarrow> None | Some p \<Rightarrow> plans w p))
          (users w uid), w))"

text \<open>
  \<open>remainingDays\<close> is \<^verbatim>\<open>Math.ceil(ms / 86400000)\<close>, the ceiling of an exact quotient
  of integers: minus the floor of the negated quotient.
\<close>

definition getUserActivePlan :: "string \<Rightarrow> activePlan option io" where
  "getUserActivePlan uid =
     tryCatch
       (andThen (findUserIncludingPlan uid) (\<lambda>found.
          case found of
            None \<Rightarrow> raise (Exn ''Usuario nao encontrado.'' None)
          | Some (user, currentPlan) \<Rightarrow>
              (\<lambda>w.
                 if currentPlan \<noteq> None \<and> planExpiresAt user \<noteq> None
                    \<and> the (planExpiresAt user) > clock w
                 then
                   succeed
                     (Some \<lparr>activePlanPlan = the currentPlan,
                            expiresAt = the (planExpiresAt user),
                            remainingDays =
                              - ((clock w - the (planExpiresAt user)) div 86400000)\<rparr>) w
                 else
                   andThen
                     (if truthy (planId user) then
                        updateUser uid (\<lambda>r. r\<lparr>planId := None, planExpiresAt := None\<rparr>)
                      else succeed ())
                     (\<lambda>_. succeed None) w)))
       (\<lambda>error. andThen (consoleError ''error reading the active plan of the user'' (Some error))
                  (\<lambda>_. raise error))"

section \<open>assignPlanToUser\<close>

text \<open>
  The administrator's grant, \<^verbatim>\<open>src/features/Admin/admin.service.js\<close>. It has the same
  shape as the grant of the webhook and compares the plans as well. Its comparison
  \<^verbatim>\<open>user.planExpiresAt > newExpirationDate\<close> reads a null date as the number 0, and
  \<^verbatim>\<open>new Date(null)\<close> is the epoch. It has no \<^verbatim>\<open>try\<close>: every error propagates.
\<close>

definition assignPlanToUser :: "string \<Rightarrow> string option \<Rightarrow> string io" where
  "assignPlanToUser uid planIdArg =
     andThen (findUser uid) (\<lambda>user.
       if user = None then raise (Exn ''Usuario nao encontrado.'' None)
       else if \<not> truthy planIdArg then
         andThen (updateUser uid (\<lambda>r. r\<lparr>planId := None, planExpiresAt := None\<rparr>))
           (\<lambda>_. succeed ''Plano removido com sucesso.'')
       else
         andThen (findPlan (the planIdArg)) (\<lambda>plan.
           if plan = None then raise (Exn ''Plano nao encontrado.'' None)
           else
             (\<lambda>w.
                let now = clock w;
                    current = (case planExpiresAt (the user) of None \<Rightarrow> 0 | Some e \<Rightarrow> e);
                    start = (if planId (the user) = planIdArg \<and> current > now
                             then current else now);
                    newExpiration = addDays w start (durationInDays (the plan))
                in andThen
                     (updateUser uid
                        (\<lambda>r. r\<lparr>planId := planIdArg,
                               planExpiresAt := Some newExpiration,
                               transcriptionsUsedCount := 0,
                               transcriptionMinutesUsed := 0,
                               agentUsesUsed := 0,
                               assistantUsesUsed := 0\<rparr>))
                     (\<lambda>_. succeed ''Plano atribuido ao usuario.'') w)))"

section \<open>Example worlds\<close>

text \<open>
  Concrete inputs for the theorems below: one user \<open>u1\<close>, two plans, one order \<open>o1\<close> of
  that user for the plan \<open>pro\<close>, submitted to the gateway as preapproval \<open>mp1\<close>. The
  clock reads 1700000000000 and a day has 86400000 milliseconds.
\<close>

definition newcomer :: user where
  "newcomer =
     \<lparr>email = ''ana@example.com'', planId = None, planExpiresAt = None,
      transcriptionsUsedCount = 3, transcriptionMinutesUsed = 40,
      agentUsesUsed = 2, assistantUsesUsed = 1\<rparr>"

definition subscriber :: user where
  "subscriber =
     \<lparr>email = ''ana@example.com'', planId = Some ''basic'',
      planExpiresAt = Some 1700864000000,
      transcriptionsUsedCount = 5, transcriptionMinutesUsed = 60,
      agentUsesUsed = 4, assistantUsesUsed = 2\<rparr>"

definition lapsed :: user where
  "lapsed =
     \<lparr>email = ''ana@example.com'', planId = Some ''pro'',
      planExpiresAt = Some 1699000000000,
      transcriptionsUsedCount = 5, transcriptionMinutesUsed = 60,
      agentUsesUsed = 4, assistantUsesUsed = 2\<rparr>"

definition proPlan :: plan where
  "proPlan = \<lparr>planName = ''Pro'', price = ''29.90'', durationInDays = 30\<rparr>"

definition basicPlan :: plan where
  "basicPlan = \<lparr>planName = ''Basic'', price = ''9.90'', durationInDays = 30\<rparr>"

definition orderOfStatus :: "string \<Rightarrow> subscriptionOrder" where
  "orderOfStatus s =
     \<lparr>userId = ''u1'', orderPlanId = ''pro'', totalAmount = ''29.90'', status = s,
      mercadopagoPreferenceId = Some ''mp1'', mercadopagoPaymentId = None,
      mercadopagoPaymentDetails = None\<rparr>"

definition providerRecord :: "string \<Rightarrow> preapproval" where
  "providerRecord s =
     \<lparr>preapprovalIdent = ''mp1'', init_point = ''https://mp.example/checkout/mp1'',
      providerStatus = s, external_reference = Some ''o1''\<rparr>"

text \<open>
  \<open>exampleWorld u s t\<close>: the user is \<open>u\<close>, the order has status \<open>s\<close>, and the gateway
  reports the provider status \<open>t\<close> for \<open>mp1\<close> and fails for every other identifier.
\<close>

definition exampleWorld :: "user \<Rightarrow> string \<Rightarrow> string \<Rightarrow> world" where
  "exampleWorld u s t =
     \<lparr>users = [''u1'' \<mapsto> u],
      plans = [''pro'' \<mapsto> proPlan, ''basic'' \<mapsto> basicPlan],
      orders = [''o1'' \<mapsto> orderOfStatus s],
      isConfigured = True,
      preapprovalGet =
        (\<lambda>i. if i = ''mp1'' then Inr (providerRecord t)
             else Inl (Exn ''Request failed with status code 404''
                         (Some ''preapproval not found''))),
      preapprovalCreate = (\<lambda>p. Inr (providerRecord ''pending'')),
      gatewayCalls = 0,
      clock = 1700000000000,
      addDays = (\<lambda>t n. t + n * 86400000),
      faults = [],
      console = []\<rparr>"

definition preapprovalNotification :: "string \<Rightarrow> notification" where
  "preapprovalNotification i = \<lparr>ntype = Some ''preapproval'', ndata = Some i\<rparr>"

section \<open>Running the primitives\<close>

lemmas io_defs =
  succeed_def raise_def andThen_def tryWith_def tryCatch_def consoleLog_def consoleError_def
  storeOp_def findUser_def findPlan_def findOrderIncluding_def findOrder_def updateOrder_def
  updateUser_def createOrder_def preapprovalGetCall_def preapprovalCreateCall_def

lemmas shared_defs = includeUserPlan_def newExpirationDate_def truthy_def Let_def

lemmas webhook_defs =
  processWebhook_def processWebhookTry_def webhookNewStatus_def webhookEntitlement_def

lemmas poller_defs =
  checkSubscriptionOrderStatus_def checkWithProvider_def pollerNewStatus_def mpCatch_def

lemmas checkout_defs =
  createCheckoutForPlan_def createCheckoutTry_def rethrownMessage_def

lemmas example_defs =
  exampleWorld_def newcomer_def subscriber_def proPlan_def basicPlan_def
  orderOfStatus_def providerRecord_def preapprovalNotification_def

section \<open>The webhook never rejects\<close>

text \<open>
  Claim C9. For every body and every world, also one whose gateway or store fails,
  \<open>processWebhook\<close> resolves: it never propagates an exception to its caller. Whatever the
  \<^verbatim>\<open>try\<close> block throws is written to the console by the handler and dropped.
\<close>

theorem processWebhook_never_raises:
  "fst (processWebhook body w) = Inr () \<and>
   (\<forall>e. fst (processWebhookTry body w) = Inl e \<longrightarrow>
      console (snd (processWebhook body w)) =
        console (snd (processWebhookTry body w)) @
          [ConsoleError ''error processing subscription webhook'' (Some e)])"
  by (cases "processWebhookTry body w")
     (auto simp: processWebhook_def tryCatch_def tryWith_def succeed_def consoleError_def
           split: sum.splits)

text \<open>
  The gateway knows no preapproval \<open>mp9\<close>: the fetch throws, the webhook logs the error
  and resolves.
\<close>

theorem processWebhook_never_raises_witness:
  "fst (processWebhookTry (Some (preapprovalNotification ''mp9''))
          (exampleWorld newcomer ''pending'' ''authorized''))
     = Inl (Exn ''Request failed with status code 404'' (Some ''preapproval not found'')) \<and>
   fst (processWebhook (Some (preapprovalNotification ''mp9''))
          (exampleWorld newcomer ''pending'' ''authorized'')) = Inr () \<and>
   console (snd (processWebhook (Some (preapprovalNotification ''mp9''))
                   (exampleWorld newcomer ''pending'' ''authorized'')))
     = [ConsoleError ''error processing subscription webhook''
          (Some (Exn ''Request failed with status code 404'' (Some ''preapproval not found'')))]"
proof -
  let ?b = "Some (preapprovalNotification ''mp9'')"
  let ?w = "exampleWorld newcomer ''pending'' ''authorized''"
  let ?e = "Exn ''Request failed with status code 404'' (Some ''preapproval not found'')"
  have run: "processWebhookTry ?b ?w = (Inl ?e, ?w\<lparr>gatewayCalls := 1\<rparr>)"
    by (simp add: processWebhookTry_def io_defs example_defs)
  have quiet: "console (?w\<lparr>gatewayCalls := 1\<rparr>) = []"
    by (simp add: exampleWorld_def)
  from processWebhook_never_raises [of ?b ?w] run quiet show ?thesis
    by simp
qed

text \<open>The same holds for a store that fails and for a body that is not an object.\<close>

lemma processWebhook_swallows_store_error:
  "fst (processWebhook (Some (preapprovalNotification ''mp1''))
          ((exampleWorld newcomer ''pending'' ''authorized'')\<lparr>faults := [True]\<rparr>)) = Inr () \<and>
   console (snd (processWebhook (Some (preapprovalNotification ''mp1''))
          ((exampleWorld newcomer ''pending'' ''authorized'')\<lparr>faults := [True]\<rparr>)))
     = [ConsoleError ''error processing subscription webhook'' (Some storeError)]"
  by (simp add: webhook_defs shared_defs io_defs example_defs)

lemma processWebhook_swallows_type_error:
  "fst (processWebhook None w) = Inr () \<and>
   fst (processWebhook (Some \<lparr>ntype = Some ''preapproval'', ndata = None\<rparr>) w) = Inr ()"
  by (simp add: webhook_defs io_defs)

section \<open>Notifications the webhook ignores\<close>

text \<open>
  Claim C8. A notification whose type is not \<open>preapproval\<close>, and a preapproval
  notification whose provider record has no external reference or refers to an order
  that does not exist, changes no order, no user and no plan, and is not an error.
\<close>

theorem processWebhook_ignores_irrelevant:
  assumes "ntype n \<noteq> Some ''preapproval'' \<or>
           (\<exists>i pre. ndata n = Some i \<and> preapprovalGet w i = Inr pre \<and>
              (\<not> truthy (external_reference pre) \<or>
               orders w (the (external_reference pre)) = None))"
  shows "fst (processWebhook (Some n) w) = Inr () \<and>
         orders (snd (processWebhook (Some n) w)) = orders w \<and>
         users (snd (processWebhook (Some n) w)) = users w \<and>
         plans (snd (processWebhook (Some n) w)) = plans w"
  using assms
  by (auto simp: processWebhook_def processWebhookTry_def io_defs Let_def
           split: sum.splits list.splits option.splits if_splits prod.splits)

text \<open>
  Three instances: a payment notification, a provider record without external reference,
  and a provider record that refers to the order \<open>o9\<close>, which does not exist.
\<close>

theorem processWebhook_ignores_irrelevant_witness:
  "(let w = exampleWorld subscriber ''pending'' ''authorized'';
        n = \<lparr>ntype = Some ''payment'', ndata = Some ''mp1''\<rparr>
    in ntype n \<noteq> Some ''preapproval'' \<and>
       orders (snd (processWebhook (Some n) w)) = orders w \<and>
       users (snd (processWebhook (Some n) w)) = users w) \<and>
   (let r = (providerRecord ''authorized'')\<lparr>external_reference := None\<rparr>;
        w = (exampleWorld subscriber ''pending'' ''authorized'')\<lparr>preapprovalGet := (\<lambda>i. Inr r)\<rparr>;
        n = preapprovalNotification ''mp1''
    in preapprovalGet w ''mp1'' = Inr r \<and> \<not> truthy (external_reference r) \<and>
       orders (snd (processWebhook (Some n) w)) = orders w \<and>
       users (snd (processWebhook (Some n) w)) = users w) \<and>
   (let r = (providerRecord ''authorized'')\<lparr>external_reference := Some ''o9''\<rparr>;
        w = (exampleWorld subscriber ''pending'' ''authorized'')\<lparr>preapprovalGet := (\<lambda>i. Inr r)\<rparr>;
        n = preapprovalNotification ''mp1''
    in preapprovalGet w ''mp1'' = Inr r \<and> orders w (the (external_reference r)) = None \<and>
       orders (snd (processWebhook (Some n) w)) = orders w \<and>
       users (snd (processWebhook (Some n) w)) = users w)"
proof -
  let ?w = "exampleWorld subscriber ''pending'' ''authorized''"
  let ?n = "preapprovalNotification ''mp1''"
  let ?p = "\<lparr>ntype = Some ''payment'', ndata = Some ''mp1''\<rparr>"
  let ?r1 = "(providerRecord ''authorized'')\<lparr>external_reference := None\<rparr>"
  let ?r2 = "(providerRecord ''authorized'')\<lparr>external_reference := Some ''o9''\<rparr>"
  let ?w1 = "?w\<lparr>preapprovalGet := (\<lambda>i. Inr ?r1)\<rparr>"
  let ?w2 = "?w\<lparr>preapprovalGet := (\<lambda>i. Inr ?r2)\<rparr>"
  have a: "ntype ?p \<noteq> Some ''preapproval''"
    by simp
  have b: "ndata ?n = Some ''mp1'' \<and> preapprovalGet ?w1 ''mp1'' = Inr ?r1 \<and>
           \<not> truthy (external_reference ?r1)"
    by (simp add: example_defs truthy_def)
  have c: "ndata ?n = Some ''mp1'' \<and> preapprovalGet ?w2 ''mp1'' = Inr ?r2 \<and>
           orders ?w2 (the (external_reference ?r2)) = None"
    by (simp add: example_defs)
  have "orders (snd (processWebhook (Some ?p) ?w)) = orders ?w \<and>
        users (snd (processWebhook (Some ?p) ?w)) = users ?w"
    using processWebhook_ignores_irrelevant [of ?p ?w] a by blast
  moreover have "orders (snd (processWebhook (Some ?n) ?w1)) = orders ?w1 \<and>
        users (snd (processWebhook (Some ?n) ?w1)) = users ?w1"
    using processWebhook_ignores_irrelevant [of ?n ?w1] b by blast
  moreover have "orders (snd (processWebhook (Some ?n) ?w2)) = orders ?w2 \<and>
        users (snd (processWebhook (Some ?n) ?w2)) = users ?w2"
    using processWebhook_ignores_irrelevant [of ?n ?w2] c by blast
  ultimately show ?thesis
    using a b c unfolding Let_def by blast
qed

section \<open>The status check of an approved order\<close>

text \<open>
  Claim C7. For an order that is already approved the status check calls the gateway
  zero times and changes no order, no user and no plan; when it returns, it returns the
  order as stored, and with a store that does not fail it returns it and leaves the whole
  world as it was.
\<close>

theorem checkSubscriptionOrderStatus_approved:
  assumes "orders w oid = Some so" and "status so = ''approved''"
  shows "gatewayCalls (snd (checkSubscriptionOrderStatus oid w)) = gatewayCalls w \<and>
         orders (snd (checkSubscriptionOrderStatus oid w)) = orders w \<and>
         users (snd (checkSubscriptionOrderStatus oid w)) = users w \<and>
         plans (snd (checkSubscriptionOrderStatus oid w)) = plans w \<and>
         (\<forall>r. fst (checkSubscriptionOrderStatus oid w) = Inr r \<longrightarrow>
              r = Some (includeUserPlan w so)) \<and>
         (faults w = [] \<longrightarrow>
            checkSubscriptionOrderStatus oid w = (Inr (Some (includeUserPlan w so)), w))"
  using assms
  by (auto simp: checkSubscriptionOrderStatus_def io_defs includeUserPlan_def
           split: sum.splits list.splits option.splits if_splits prod.splits)

text \<open>
  The gateway would report \<open>cancelled\<close>, but the order is approved: it is returned
  unchanged and the gateway is not asked.
\<close>

theorem checkSubscriptionOrderStatus_approved_witness:
  "orders (exampleWorld subscriber ''approved'' ''cancelled'') ''o1''
     = Some (orderOfStatus ''approved'') \<and>
   status (orderOfStatus ''approved'') = ''approved'' \<and>
   faults (exampleWorld subscriber ''approved'' ''cancelled'') = [] \<and>
   checkSubscriptionOrderStatus ''o1'' (exampleWorld subscriber ''approved'' ''cancelled'')
     = (Inr (Some \<lparr>orderRow = orderOfStatus ''approved'', orderUser = Some subscriber,
                    orderPlan = Some proPlan\<rparr>),
        exampleWorld subscriber ''approved'' ''cancelled'') \<and>
   gatewayCalls (snd (checkSubscriptionOrderStatus ''o1''
                        (exampleWorld subscriber ''approved'' ''cancelled''))) = 0"
proof -
  let ?w = "exampleWorld subscriber ''approved'' ''cancelled''"
  have a: "orders ?w ''o1'' = Some (orderOfStatus ''approved'')"
    by (simp add: exampleWorld_def)
  have b: "status (orderOfStatus ''approved'') = ''approved''"
    by (simp add: orderOfStatus_def)
  have c: "faults ?w = []" and d: "gatewayCalls ?w = 0"
    by (simp_all add: exampleWorld_def)
  have e: "includeUserPlan ?w (orderOfStatus ''approved'')
             = \<lparr>orderRow = orderOfStatus ''approved'', orderUser = Some subscriber,
                orderPlan = Some proPlan\<rparr>"
    by (simp add: includeUserPlan_def exampleWorld_def orderOfStatus_def)
  have run: "checkSubscriptionOrderStatus ''o1'' ?w
               = (Inr (Some (includeUserPlan ?w (orderOfStatus ''approved''))), ?w)"
    using checkSubscriptionOrderStatus_approved [of ?w "''o1''" "orderOfStatus ''approved''"] a b c
    by blast
  have calls: "gatewayCalls (snd (checkSubscriptionOrderStatus ''o1'' ?w)) = 0"
    unfolding run using d by simp
  show ?thesis
    using a b c calls run [unfolded e] by (intro conjI)
qed

section \<open>Reading the active plan\<close>

text \<open>
  Claim C10. Reading the active plan writes: for an existing user whose \<open>planId\<close> is set
  (to a key, which is a non-empty string) but whose entitlement is not active, because
  the plan row is missing, the expiration date is null or the expiration date is not
  later than now, \<open>getUserActivePlan\<close> returns null and stores the user with \<open>planId\<close> and
  \<open>planExpiresAt\<close> both null. Nothing else in the world changes.
\<close>

theorem getUserActivePlan_clears_stale_plan:
  assumes "faults w = []" and "users w uid = Some u" and "planId u = Some pid" and "pid \<noteq> []"
    and "plans w pid = None \<or> planExpiresAt u = None \<or>
         (\<exists>e. planExpiresAt u = Some e \<and> e \<le> clock w)"
  shows "getUserActivePlan uid w =
           (Inr None, w\<lparr>users := (users w)(uid \<mapsto> u\<lparr>planId := None, planExpiresAt := None\<rparr>)\<rparr>)"
  using assms
  by (auto simp: getUserActivePlan_def findUserIncludingPlan_def io_defs truthy_def
           split: sum.splits list.splits option.splits if_splits prod.splits)

text \<open>
  The user \<open>lapsed\<close> is on the plan \<open>pro\<close>, which exists, with an expiration date in the
  past.
\<close>

theorem getUserActivePlan_clears_stale_plan_witness:
  "faults (exampleWorld lapsed ''approved'' ''authorized'') = [] \<and>
   users (exampleWorld lapsed ''approved'' ''authorized'') ''u1'' = Some lapsed \<and>
   planId lapsed = Some ''pro'' \<and> ''pro'' \<noteq> [] \<and>
   planExpiresAt lapsed = Some 1699000000000 \<and>
   1699000000000 \<le> clock (exampleWorld lapsed ''approved'' ''authorized'') \<and>
   fst (getUserActivePlan ''u1'' (exampleWorld lapsed ''approved'' ''authorized'')) = Inr None \<and>
   users (snd (getUserActivePlan ''u1'' (exampleWorld lapsed ''approved'' ''authorized''))) ''u1''
     = Some (lapsed\<lparr>planId := None, planExpiresAt := None\<rparr>)"
proof -
  let ?w = "exampleWorld lapsed ''approved'' ''authorized''"
  have a: "faults ?w = []" and b: "users ?w ''u1'' = Some lapsed"
    and t: "1699000000000 \<le> clock ?w"
    by (simp_all add: exampleWorld_def)
  have c: "planId lapsed = Some ''pro''" and e: "planExpiresAt lapsed = Some 1699000000000"
    by (simp_all add: lapsed_def)
  have d: "''pro'' \<noteq> []"
    by simp
  have f: "plans ?w ''pro'' = None \<or> planExpiresAt lapsed = None \<or>
           (\<exists>e. planExpiresAt lapsed = Some e \<and> e \<le> clock ?w)"
    using e t by simp
  from getUserActivePlan_clears_stale_plan [OF a b c d f] a b c d e t show ?thesis
    by simp
qed

section \<open>The expiration date of a grant\<close>

text \<open>
  Claim C3, as the code has it. When the webhook grants a plan (the provider status is
  \<open>authorized\<close> and the order's user and plan exist), the user gets the order's plan, all
  four usage counters are reset, and the new expiration date is the plan's duration added
  to the current expiration date whenever that date is set and later than now, whatever
  plan the user is on, and to now otherwise. The user's current plan is not compared
  with the plan granted.
\<close>

theorem processWebhook_grant_expiration:
  assumes "faults w = []"
    and "ntype n = Some ''preapproval''" and "ndata n = Some i"
    and "preapprovalGet w i = Inr pre" and "providerStatus pre = ''authorized''"
    and "external_reference pre = Some oid" and "oid \<noteq> []"
    and "orders w oid = Some so"
    and "users w (userId so) = Some u" and "plans w (orderPlanId so) = Some p"
  shows "users (snd (processWebhook (Some n) w)) (userId so) =
           Some (u\<lparr>planId := Some (orderPlanId so),
                   planExpiresAt :=
                     Some (addDays w
                             (case planExpiresAt u of
                                None \<Rightarrow> clock w
                              | Some e \<Rightarrow> if clock w < e then e else clock w)
                             (durationInDays p)),
                   transcriptionsUsedCount := 0, transcriptionMinutesUsed := 0,
                   agentUsesUsed := 0, assistantUsesUsed := 0\<rparr>)"
  using assms
  by (simp add: webhook_defs shared_defs io_defs split: option.split)

text \<open>
  The user \<open>subscriber\<close> is on the plan \<open>basic\<close> until 1700864000000, ten days from now,
  and the order grants the plan \<open>pro\<close> of 30 days: the new date is forty days from now.
\<close>

theorem processWebhook_grant_expiration_witness:
  "faults (exampleWorld subscriber ''pending'' ''authorized'') = [] \<and>
   preapprovalGet (exampleWorld subscriber ''pending'' ''authorized'') ''mp1''
     = Inr (providerRecord ''authorized'') \<and>
   orders (exampleWorld subscriber ''pending'' ''authorized'') ''o1''
     = Some (orderOfStatus ''pending'') \<and>
   users (exampleWorld subscriber ''pending'' ''authorized'') ''u1'' = Some subscriber \<and>
   plans (exampleWorld subscriber ''pending'' ''authorized'') ''pro'' = Some proPlan \<and>
   users (snd (processWebhook (Some (preapprovalNotification ''mp1''))
                 (exampleWorld subscriber ''pending'' ''authorized''))) ''u1''
     = Some (subscriber\<lparr>planId := Some ''pro'', planExpiresAt := Some 1703456000000,
               transcriptionsUsedCount := 0, transcriptionMinutesUsed := 0,
               agentUsesUsed := 0, assistantUsesUsed := 0\<rparr>)"
proof -
  let ?w = "exampleWorld subscriber ''pending'' ''authorized''"
  let ?n = "preapprovalNotification ''mp1''"
  let ?r = "providerRecord ''authorized''"
  let ?so = "orderOfStatus ''pending''"
  have a: "faults ?w = []" and d: "preapprovalGet ?w ''mp1'' = Inr ?r"
    and h: "orders ?w ''o1'' = Some ?so"
    by (simp_all add: exampleWorld_def)
  have b: "ntype ?n = Some ''preapproval''" and c: "ndata ?n = Some ''mp1''"
    by (simp_all add: preapprovalNotification_def)
  have e: "providerStatus ?r = ''authorized''" and f: "external_reference ?r = Some ''o1''"
    by (simp_all add: providerRecord_def)
  have g: "''o1'' \<noteq> []"
    by simp
  have k: "userId ?so = ''u1''" and l: "orderPlanId ?so = ''pro''"
    by (simp_all add: orderOfStatus_def)
  have i: "users ?w (userId ?so) = Some subscriber"
    and j: "plans ?w (orderPlanId ?so) = Some proPlan"
    unfolding k l by (simp_all add: exampleWorld_def)
  have m: "addDays ?w (case planExpiresAt subscriber of None \<Rightarrow> clock ?w
                       | Some e \<Rightarrow> if clock ?w < e then e else clock ?w)
             (durationInDays proPlan) = 1703456000000"
    by (simp add: exampleWorld_def subscriber_def proPlan_def)
  note run = processWebhook_grant_expiration [OF a b c d e f g h i j, unfolded k l m]
  show ?thesis
    using a d h i [unfolded k] j [unfolded l] run by (intro conjI)
qed

text \<open>
  Claim C3 as stated fails at that input: the user is on another plan than the one
  granted, and the new date is the old one plus 30 days, not now plus 30 days.
\<close>

theorem grant_ignores_current_plan_counterexample:
  "planId subscriber \<noteq> Some (orderPlanId (orderOfStatus ''pending'')) \<and>
   map_option planExpiresAt
     (users (snd (processWebhook (Some (preapprovalNotification ''mp1''))
                    (exampleWorld subscriber ''pending'' ''authorized''))) ''u1'')
     = Some (Some (1700864000000 + 30 * 86400000)) \<and>
   map_option planExpiresAt
     (users (snd (processWebhook (Some (preapprovalNotification ''mp1''))
                    (exampleWorld subscriber ''pending'' ''authorized''))) ''u1'')
     \<noteq> Some (Some (clock (exampleWorld subscriber ''pending'' ''authorized'') + 30 * 86400000))"
  by (simp add: webhook_defs shared_defs io_defs example_defs)

text \<open>
  The rule claim C3 states, with the comparison of the plans, is the rule of the
  administrator's \<open>assignPlanToUser\<close>.
\<close>

lemma assignPlanToUser_expiration:
  assumes "faults w = []" and "users w uid = Some u" and "plans w pid = Some p"
    and "pid \<noteq> []" and "0 \<le> clock w"
  shows "users (snd (assignPlanToUser uid (Some pid) w)) uid =
           Some (u\<lparr>planId := Some pid,
                   planExpiresAt :=
                     Some (addDays w
                             (if planId u = Some pid \<and>
                                 (\<exists>e. planExpiresAt u = Some e \<and> clock w < e)
                              then the (planExpiresAt u) else clock w)
                             (durationInDays p)),
                   transcriptionsUsedCount := 0, transcriptionMinutesUsed := 0,
                   agentUsesUsed := 0, assistantUsesUsed := 0\<rparr>)"
  using assms
  by (auto simp: assignPlanToUser_def truthy_def Let_def io_defs split: option.splits)

section \<open>The order status after a notification\<close>




text \<open>
  The status check on a cancelled order whose subscription the provider reports as
  \<open>pending\<close> leaves the order cancelled.
\<close>

lemma checkSubscriptionOrderStatus_keeps_unmapped_status:
  assumes "faults w = []" and "orders w oid = Some so"
    and "mercadopagoPreferenceId so = Some i" and "i \<noteq> []"
    and "preapprovalGet w i = Inr pre"
    and "providerStatus pre \<notin> {''authorized'', ''cancelled'', ''paused''}"
  shows "orders (snd (checkSubscriptionOrderStatus oid w)) = orders w"
  using assms
  by (auto simp: poller_defs shared_defs io_defs)

section \<open>Duplicate delivery\<close>

text \<open>
  Claim C1 asks that a second delivery of the same \<open>authorized\<close> notification leaves the
  expiration date alone. The webhook does not compare the order's previous status with
  the new one: the first delivery sets the date 30 days from now and the second,
  identical, delivery moves it to 60 days from now.
\<close>

theorem processWebhook_duplicate_extends_twice:
  "map_option planExpiresAt
     (users (snd (processWebhook (Some (preapprovalNotification ''mp1''))
                    (exampleWorld newcomer ''pending'' ''authorized''))) ''u1'')
     = Some (Some 1702592000000) \<and>
   map_option planExpiresAt
     (users (snd (processWebhook (Some (preapprovalNotification ''mp1''))
              (snd (processWebhook (Some (preapprovalNotification ''mp1''))
                     (exampleWorld newcomer ''pending'' ''authorized''))))) ''u1'')
     = Some (Some 1705184000000)"
  by (simp add: webhook_defs shared_defs io_defs example_defs)

text \<open>
  In general: an \<open>authorized\<close> notification for an order that is already approved,
  whose user has an expiration date later than now, moves that date by the plan's
  duration once more.
\<close>

lemma processWebhook_extends_approved_order:
  assumes "faults w = []"
    and "ntype n = Some ''preapproval''" and "ndata n = Some i"
    and "preapprovalGet w i = Inr pre" and "providerStatus pre = ''authorized''"
    and "external_reference pre = Some oid" and "oid \<noteq> []"
    and "orders w oid = Some so" and "status so = ''approved''"
    and "users w (userId so) = Some u" and "plans w (orderPlanId so) = Some p"
    and "planExpiresAt u = Some e" and "clock w < e"
  shows "map_option planExpiresAt (users (snd (processWebhook (Some n) w)) (userId so))
           = Some (Some (addDays w e (durationInDays p)))"
  using assms
  by (simp add: webhook_defs shared_defs io_defs)

section \<open>The status check against the webhook\<close>

text \<open>
  Claim C2 asks that the status check and the webhook leave the same order status and
  the same entitlement. On a pending order whose subscription the provider reports as
  \<open>cancelled\<close> the webhook revokes the user's plan and the status check leaves the user
  as it was; on one it reports as \<open>authorized\<close> the webhook resets the usage counters
  and the status check keeps them.
\<close>

theorem poller_differs_from_webhook:
  "users (snd (processWebhook (Some (preapprovalNotification ''mp1''))
                 (exampleWorld subscriber ''pending'' ''cancelled''))) ''u1''
     = Some (subscriber\<lparr>planId := None, planExpiresAt := Some 1700000000000\<rparr>) \<and>
   users (snd (checkSubscriptionOrderStatus ''o1''
                 (exampleWorld subscriber ''pending'' ''cancelled''))) ''u1''
     = Some subscriber \<and>
   map_option transcriptionsUsedCount
     (users (snd (processWebhook (Some (preapprovalNotification ''mp1''))
                    (exampleWorld subscriber ''pending'' ''authorized''))) ''u1'') = Some 0 \<and>
   map_option transcriptionsUsedCount
     (users (snd (checkSubscriptionOrderStatus ''o1''
                    (exampleWorld subscriber ''pending'' ''authorized''))) ''u1'') = Some 5"
  by (simp add: webhook_defs poller_defs shared_defs io_defs example_defs)

text \<open>
  Where the two paths do agree: on an order that is not approved, with its user and plan
  in the store and a provider status of \<open>authorized\<close>, both leave the order approved
  and give the user the same plan and the same expiration date.
\<close>

lemma reconciliation_paths_agree_on_grant:
  assumes "faults w = []" and "orders w oid = Some so" and "status so \<noteq> ''approved''"
    and "mercadopagoPreferenceId so = Some i" and "i \<noteq> []"
    and "preapprovalGet w i = Inr pre" and "providerStatus pre = ''authorized''"
    and "external_reference pre = Some oid" and "oid \<noteq> []"
    and "users w (userId so) = Some u" and "plans w (orderPlanId so) = Some p"
  shows "map_option status
           (orders (snd (processWebhook (Some \<lparr>ntype = Some ''preapproval'', ndata = Some i\<rparr>) w)) oid)
         = map_option status (orders (snd (checkSubscriptionOrderStatus oid w)) oid) \<and>
         map_option planId
           (users (snd (processWebhook (Some \<lparr>ntype = Some ''preapproval'', ndata = Some i\<rparr>) w))
              (userId so))
         = map_option planId (users (snd (checkSubscriptionOrderStatus oid w)) (userId so)) \<and>
         map_option planExpiresAt
           (users (snd (processWebhook (Some \<lparr>ntype = Some ''preapproval'', ndata = Some i\<rparr>) w))
              (userId so))
         = map_option planExpiresAt
             (users (snd (checkSubscriptionOrderStatus oid w)) (userId so))"
  using assms
  by (simp add: webhook_defs poller_defs shared_defs io_defs split: option.split)

section \<open>A cancellation seen by the status check\<close>

text \<open>
  Claim C5 asks that a status check which finds the provider status \<open>cancelled\<close> on a
  pending order revokes the user's entitlement. The status check marks the order
  cancelled and stops there: the user keeps the plan and the expiration date.
\<close>

theorem poller_cancelled_keeps_entitlement:
  "map_option status
     (orders (snd (checkSubscriptionOrderStatus ''o1''
                     (exampleWorld subscriber ''pending'' ''cancelled''))) ''o1'')
     = Some ''cancelled'' \<and>
   map_option planId
     (users (snd (checkSubscriptionOrderStatus ''o1''
                    (exampleWorld subscriber ''pending'' ''cancelled''))) ''u1'')
     = Some (Some ''basic'') \<and>
   map_option planExpiresAt
     (users (snd (checkSubscriptionOrderStatus ''o1''
                    (exampleWorld subscriber ''pending'' ''cancelled''))) ''u1'')
     = Some (Some 1700864000000) \<and>
   clock (exampleWorld subscriber ''pending'' ''cancelled'') = 1700000000000"
  by (simp add: poller_defs shared_defs io_defs example_defs)

text \<open>In general the status check writes no user unless the new status is \<open>approved\<close>.\<close>

lemma checkSubscriptionOrderStatus_cancel_keeps_users:
  assumes "faults w = []" and "orders w oid = Some so" and "status so = ''pending''"
    and "mercadopagoPreferenceId so = Some i" and "i \<noteq> []"
    and "preapprovalGet w i = Inr pre"
    and "providerStatus pre = ''cancelled'' \<or> providerStatus pre = ''paused''"
  shows "map_option status (orders (snd (checkSubscriptionOrderStatus oid w)) oid)
           = Some ''cancelled'' \<and>
         users (snd (checkSubscriptionOrderStatus oid w)) = users w"
  using assms
  by (auto simp: poller_defs shared_defs io_defs)

section \<open>The errors of a checkout\<close>

text \<open>
  Claim C6 asks for three distinct errors. The error thrown for a missing user or plan
  is thrown inside the \<^verbatim>\<open>try\<close> block, so the handler replaces it: the caller gets the
  same error as for a gateway that cannot be reached.
\<close>

theorem createCheckout_not_found_is_masked:
  "fst (createCheckoutForPlan ''o2'' ''nobody'' ''pro''
          (exampleWorld newcomer ''pending'' ''pending''))
     = Inl (Exn gatewayErrorMessage None) \<and>
   fst (createCheckoutForPlan ''o2'' ''u1'' ''no-such-plan''
          (exampleWorld newcomer ''pending'' ''pending''))
     = Inl (Exn gatewayErrorMessage None) \<and>
   fst (createCheckoutForPlan ''o2'' ''u1'' ''pro''
          ((exampleWorld newcomer ''pending'' ''pending'')
             \<lparr>preapprovalCreate := (\<lambda>p. Inl (Exn ''connect ETIMEDOUT'' None))\<rparr>))
     = Inl (Exn gatewayErrorMessage None)"
  by (simp add: checkout_defs truthy_def io_defs example_defs)

text \<open>What the checkout does get right.\<close>

lemma createCheckout_not_configured:
  "\<not> isConfigured w \<Longrightarrow>
   fst (createCheckoutForPlan oid uid pid w) = Inl (Exn serviceUnavailableMessage None) \<and>
   orders (snd (createCheckoutForPlan oid uid pid w)) = orders w \<and>
   gatewayCalls (snd (createCheckoutForPlan oid uid pid w)) = gatewayCalls w"
  by (simp add: createCheckoutForPlan_def io_defs)

lemma createCheckout_gateway_error:
  assumes "isConfigured w" and "faults w = []"
    and "users w uid = Some u" and "plans w pid = Some p"
    and "\<forall>payload. preapprovalCreate w payload = Inl (Exn m (Some r))" and "r \<noteq> []"
  shows "fst (createCheckoutForPlan oid uid pid w) = Inl (Exn r None) \<and>
         map_option status (orders (snd (createCheckoutForPlan oid uid pid w)) oid)
           = Some ''pending''"
  using assms
  by (simp add: checkout_defs truthy_def io_defs)

lemma createCheckout_success:
  assumes "isConfigured w" and "faults w = []"
    and "users w uid = Some u" and "plans w pid = Some p"
    and "\<forall>payload. preapprovalCreate w payload = Inr pre"
  shows "fst (createCheckoutForPlan oid uid pid w)
           = Inr \<lparr>checkoutUrl = init_point pre, preapprovalId = preapprovalIdent pre\<rparr> \<and>
         orders (snd (createCheckoutForPlan oid uid pid w)) oid
           = Some \<lparr>userId = uid, orderPlanId = pid, totalAmount = price p,
                   status = ''pending'',
                   mercadopagoPreferenceId = Some (preapprovalIdent pre),
                   mercadopagoPaymentId = None, mercadopagoPaymentDetails = None\<rparr>"
  using assms
  by (simp add: checkout_defs truthy_def io_defs)

end
